theory Spec2Isabelle
  imports Complex_Main "HOL-Library.Sublist"
begin

section \<open>Data model\<close>

text \<open>
  A cell of the one-row data frame built from the submitted dictionary is either a
  Python string or a number. Finite floating-point numbers are modelled as reals; the
  only non-finite values the program can produce come from the division
  \<open>carbon_footprint / revenue\<close> and are modelled by \<open>npfloat\<close> below.
\<close>

datatype val = Str string | Num real

type_synonym company_data = "string \<rightharpoonup> val"

datatype error = KeyError | TypeError | AttributeError | ValueError

text \<open>\<open>company_data[col].iloc[0]\<close>: a missing column raises \<open>KeyError\<close>.\<close>

definition iloc0 :: "company_data \<Rightarrow> string \<Rightarrow> error + val" where
  "iloc0 d col = (case d col of None \<Rightarrow> Inl KeyError | Some v \<Rightarrow> Inr v)"

text \<open>A cell used as a number: arithmetic or an ordering comparison of a Python
  string with a float raises \<open>TypeError\<close>.\<close>

fun as_number :: "val \<Rightarrow> error + real" where
  "as_number (Num x) = Inr x"
| "as_number (Str s) = Inl TypeError"

subsection \<open>The static tables of \<open>__init__\<close>\<close>

text \<open>Python dictionaries iterate in insertion order, so both tables are association
  lists in the order of the source text.\<close>

definition esg_exclusion_list :: "(string \<times> string list) list" where
  "esg_exclusion_list =
    [(''fossil_fuels'', [''coal_mining'', ''oil_gas_extraction'', ''fossil_power_generation'']),
     (''controversial_weapons'', [''cluster_munitions'', ''landmines'', ''nuclear_weapons'']),
     (''ethical_concerns'', [''tobacco'', ''gambling'', ''adult_entertainment'']),
     (''environmental_violations'', [''deforestation'', ''high_emission_operations''])]"

definition climate_risk_factors :: "(string \<times> (string \<times> real) list) list" where
  "climate_risk_factors =
    [(''physical_risk'',
        [(''flood_risk'', 0.25), (''heat_stress'', 0.20),
         (''sea_level_rise'', 0.15), (''wildfire_risk'', 0.15)]),
     (''transition_risk'',
        [(''carbon_price_exposure'', 0.25), (''regulatory_compliance'', 0.20),
         (''technology_disruption'', 0.15)])]"

text \<open>\<open>self.climate_risk_factors[key]\<close>: a missing key raises \<open>KeyError\<close>.\<close>

definition dimension :: "string \<Rightarrow> error + (string \<times> real) list" where
  "dimension key =
    (case map_of climate_risk_factors key of None \<Rightarrow> Inl KeyError | Some ws \<Rightarrow> Inr ws)"

section \<open>Exclusion screening\<close>

text \<open>
  \<open>str.lower()\<close> on 8-bit characters: the ASCII capitals \<open>A\<close>..\<open>Z\<close> (codes 65..90) move
  to \<open>a\<close>..\<open>z\<close>; every other character is kept. Text is modelled as ASCII text.
\<close>

definition lower_char :: "char \<Rightarrow> char" where
  "lower_char c =
    (let n = (of_char c :: nat) in if 65 \<le> n \<and> n \<le> 90 then char_of (n + 32) else c)"

definition lower :: "string \<Rightarrow> string" where
  "lower s = map lower_char s"

text \<open>Python's \<open>k in s\<close> on strings is contiguous substring containment, which is
  \<^const>\<open>sublist\<close>. The loop over \<open>esg_exclusion_list.items()\<close> appends to
  \<open>violations\<close>.\<close>

fun screen_loop :: "(string \<times> string list) list \<Rightarrow> string \<Rightarrow> string list \<Rightarrow> string list" where
  "screen_loop [] company_industry violations = violations"
| "screen_loop ((category, industries) # rest) company_industry violations =
    screen_loop rest company_industry
      (if list_ex (\<lambda>industry. sublist industry company_industry) industries
       then violations @ [category] else violations)"

text \<open>The body of \<open>screen_esg_exclusions\<close> once the industry text has been read.\<close>

definition screen :: "string \<Rightarrow> bool \<times> string list" where
  "screen industry =
    (let company_industry = lower industry;
         violations = screen_loop esg_exclusion_list company_industry []
     in (length violations = 0, violations))"

text \<open>\<open>.lower()\<close> on a number raises \<open>AttributeError\<close>.\<close>

definition screen_esg_exclusions :: "company_data \<Rightarrow> error + (bool \<times> string list)" where
  "screen_esg_exclusions d =
    (case iloc0 d ''industry'' of
       Inl e \<Rightarrow> Inl e
     | Inr (Num x) \<Rightarrow> Inl AttributeError
     | Inr (Str s) \<Rightarrow> Inr (screen s))"

section \<open>Weighted scoring\<close>

text \<open>\<open>sum(company_data[f"{factor}_score"].iloc[0] * weight for factor, weight in ...)\<close>:
  the generator is consumed left to right, starting from 0; the first failing term
  raises.\<close>

fun weighted_sum :: "company_data \<Rightarrow> (string \<times> real) list \<Rightarrow> real \<Rightarrow> error + real" where
  "weighted_sum d [] acc = Inr acc"
| "weighted_sum d ((factor, weight) # rest) acc =
    (case iloc0 d (factor @ ''_score'') of
       Inl e \<Rightarrow> Inl e
     | Inr v \<Rightarrow>
        (case as_number v of
           Inl e \<Rightarrow> Inl e
         | Inr x \<Rightarrow> weighted_sum d rest (acc + x * weight)))"

text \<open>The body of the \<open>try\<close> block of \<open>calculate_climate_risk_score\<close>.\<close>

definition score_body :: "company_data \<Rightarrow> error + real" where
  "score_body d =
    (case dimension ''physical_risk'' of
       Inl e \<Rightarrow> Inl e
     | Inr pw \<Rightarrow>
        (case weighted_sum d pw 0 of
           Inl e \<Rightarrow> Inl e
         | Inr physical_score \<Rightarrow>
            (case dimension ''transition_risk'' of
               Inl e \<Rightarrow> Inl e
             | Inr tw \<Rightarrow>
                (case weighted_sum d tw 0 of
                   Inl e \<Rightarrow> Inl e
                 | Inr transition_score \<Rightarrow>
                     Inr (0.6 * physical_score + 0.4 * transition_score)))))"

text \<open>\<open>except Exception\<close>: the error is logged and \<open>0.0\<close> is returned.\<close>

definition calculate_climate_risk_score :: "company_data \<Rightarrow> real" where
  "calculate_climate_risk_score d = (case score_body d of Inl e \<Rightarrow> 0 | Inr s \<Rightarrow> s)"

section \<open>Qualitative risks and opportunities\<close>

text \<open>
  The cells are NumPy scalars, so a division by zero does not raise: it yields
  \<open>inf\<close>, \<open>-inf\<close> or \<open>nan\<close> (with a warning). Every ordering comparison with \<open>nan\<close> is
  false. The sign of a zero divisor is not modelled.
\<close>

datatype npfloat = Fin real | PosInf | NegInf | NaN

definition np_div :: "real \<Rightarrow> real \<Rightarrow> npfloat" where
  "np_div a b =
    (if b \<noteq> 0 then Fin (a / b) else if 0 < a then PosInf else if a < 0 then NegInf else NaN)"

fun np_gt :: "npfloat \<Rightarrow> real \<Rightarrow> bool" where
  "np_gt (Fin x) c = (c < x)"
| "np_gt PosInf c = True"
| "np_gt NegInf c = False"
| "np_gt NaN c = False"

fun np_lt :: "npfloat \<Rightarrow> real \<Rightarrow> bool" where
  "np_lt (Fin x) c = (x < c)"
| "np_lt PosInf c = False"
| "np_lt NegInf c = True"
| "np_lt NaN c = False"

text \<open>\<open>company_data['carbon_footprint'].iloc[0] / company_data['revenue'].iloc[0]\<close>\<close>

definition carbon_intensity :: "company_data \<Rightarrow> error + npfloat" where
  "carbon_intensity d =
    (case iloc0 d ''carbon_footprint'' of
       Inl e \<Rightarrow> Inl e
     | Inr cf \<Rightarrow>
        (case iloc0 d ''revenue'' of
           Inl e \<Rightarrow> Inl e
         | Inr rv \<Rightarrow>
            (case as_number cf of
               Inl e \<Rightarrow> Inl e
             | Inr a \<Rightarrow>
                (case as_number rv of
                   Inl e \<Rightarrow> Inl e
                 | Inr b \<Rightarrow> Inr (np_div a b)))))"

text \<open>\<open>company_data[col].iloc[0] > c\<close>\<close>

definition cell_gt :: "company_data \<Rightarrow> string \<Rightarrow> real \<Rightarrow> error + bool" where
  "cell_gt d col c =
    (case iloc0 d col of
       Inl e \<Rightarrow> Inl e
     | Inr v \<Rightarrow> (case as_number v of Inl e \<Rightarrow> Inl e | Inr x \<Rightarrow> Inr (c < x)))"

definition identify_esg_risks :: "company_data \<Rightarrow> error + string list" where
  "identify_esg_risks d =
    (let risks = [] in
     case carbon_intensity d of
       Inl e \<Rightarrow> Inl e
     | Inr r \<Rightarrow>
        (let risks = (if np_gt r 100 then risks @ [''High carbon intensity''] else risks) in
         case cell_gt d ''physical_risk_score'' 7 of
           Inl e \<Rightarrow> Inl e
         | Inr p \<Rightarrow>
            (let risks = (if p then risks @ [''High physical climate risk''] else risks) in
             case cell_gt d ''transition_risk_score'' 6 of
               Inl e \<Rightarrow> Inl e
             | Inr t \<Rightarrow>
                Inr (if t then risks @ [''High transition risk''] else risks))))"

text \<open>\<open>word in company_data['industry'].iloc[0].lower()\<close>\<close>

definition industry_has :: "company_data \<Rightarrow> string \<Rightarrow> error + bool" where
  "industry_has d word =
    (case iloc0 d ''industry'' of
       Inl e \<Rightarrow> Inl e
     | Inr (Num x) \<Rightarrow> Inl AttributeError
     | Inr (Str s) \<Rightarrow> Inr (sublist word (lower s)))"

definition assess_opportunities :: "company_data \<Rightarrow> error + string list" where
  "assess_opportunities d =
    (let opportunities = [] in
     case industry_has d ''renewable'' of
       Inl e \<Rightarrow> Inl e
     | Inr r \<Rightarrow>
        (let opportunities =
           (if r then opportunities @ [''Renewable energy market growth''] else opportunities) in
         case carbon_intensity d of
           Inl e \<Rightarrow> Inl e
         | Inr q \<Rightarrow>
            (let opportunities =
               (if np_lt q 50 then opportunities @ [''Low-carbon competitive advantage'']
                else opportunities) in
             case industry_has d ''green'' of
               Inl e \<Rightarrow> Inl e
             | Inr g \<Rightarrow>
                Inr (if g then opportunities @ [''Green technology innovation'']
                     else opportunities))))"

section \<open>Recommendation and report\<close>

definition generate_recommendation :: "bool \<Rightarrow> real \<Rightarrow> string" where
  "generate_recommendation esg_compliant climate_risk_score =
    (if \<not> esg_compliant then ''Do not proceed - ESG exclusion list violations detected''
     else if climate_risk_score > 8 then ''High risk - requires detailed due diligence''
     else if climate_risk_score > 5 then ''Moderate risk - proceed with caution''
     else ''Low risk - suitable for investment consideration'')"

text \<open>\<open>round(x, 2)\<close>: to the nearest multiple of one hundredth, a tie going to the even
  neighbour.\<close>

definition round_half_even :: "real \<Rightarrow> int" where
  "round_half_even x =
    (let f = \<lfloor>x\<rfloor>; r = x - of_int f
     in if r < 1 / 2 then f else if 1 / 2 < r then f + 1 else if even f then f else f + 1)"

definition round2 :: "real \<Rightarrow> real" where
  "round2 x = of_int (round_half_even (x * 100)) / 100"

definition required_columns :: "string list" where
  "required_columns =
    [''company_name'', ''industry'', ''location'', ''revenue'', ''carbon_footprint'',
     ''physical_risk_score'', ''transition_risk_score'']"

definition load_company_data :: "company_data \<Rightarrow> error + company_data" where
  "load_company_data d =
    (if list_all (\<lambda>col. d col \<noteq> None) required_columns then Inr d else Inl ValueError)"

record report =
  company_name :: val
  esg_compliant :: bool
  esg_violations :: "string list"
  climate_risk_score :: real
  esg_risks :: "string list"
  climate_opportunities :: "string list"
  recommendation :: string

text \<open>\<open>generate_report\<close> catches every exception and returns the empty dictionary, here
  \<open>None\<close>. The recommendation is computed from the unrounded score.\<close>

definition generate_report :: "company_data \<Rightarrow> report option" where
  "generate_report company =
    (case load_company_data company of
       Inl e \<Rightarrow> None
     | Inr df \<Rightarrow>
        (case screen_esg_exclusions df of
           Inl e \<Rightarrow> None
         | Inr (compliant, violations) \<Rightarrow>
            (let score = calculate_climate_risk_score df in
             case identify_esg_risks df of
               Inl e \<Rightarrow> None
             | Inr risks \<Rightarrow>
                (case assess_opportunities df of
                   Inl e \<Rightarrow> None
                 | Inr opportunities \<Rightarrow>
                    (case iloc0 df ''company_name'' of
                       Inl e \<Rightarrow> None
                     | Inr name \<Rightarrow>
                        Some \<lparr>company_name = name,
                              esg_compliant = compliant,
                              esg_violations = violations,
                              climate_risk_score = round2 score,
                              esg_risks = risks,
                              climate_opportunities = opportunities,
                              recommendation = generate_recommendation compliant score\<rparr>)))))"

section \<open>Loan decision\<close>

text \<open>Step 2 of the loan application: \<open>decision\<close> and \<open>reason\<close> start as
  \<open>"Rejected"\<close> and \<open>"High risk"\<close> and are overwritten by the first branch that applies.\<close>

definition decide :: "real \<Rightarrow> real \<Rightarrow> string \<times> string" where
  "decide risk_score loan_amount =
    (let decision = ''Rejected''; reason = ''High risk'' in
     if risk_score \<ge> 700 then (''Approved'', ''Low risk'')
     else if (500 \<le> risk_score \<and> risk_score < 700) \<and> loan_amount \<le> 50000
       then (''Approved'', ''Medium risk (limited amount)'')
     else (decision, reason))"

section \<open>Concrete inputs\<close>

text \<open>The dictionary the form submits, here with the form's default values except for
  the sea level rise score (4.0) and the technology disruption score (3.1).\<close>

definition sample_company :: company_data where
  "sample_company = map_of
    [(''company_name'', Str ''GreenTech Solutions''),
     (''industry'', Str ''Renewable Energy''),
     (''location'', Str ''California''),
     (''revenue'', Num 100000000),
     (''carbon_footprint'', Num 2000000),
     (''physical_risk_score'', Num 4.5),
     (''transition_risk_score'', Num 3.2),
     (''flood_risk_score'', Num 5),
     (''heat_stress_score'', Num 4),
     (''sea_level_rise_score'', Num 4),
     (''wildfire_risk_score'', Num 5),
     (''carbon_price_exposure_score'', Num 3),
     (''regulatory_compliance_score'', Num 3.5),
     (''technology_disruption_score'', Num 3.1)]"

text \<open>The same submission without the key \<open>flood_risk_score\<close>.\<close>

definition company_without_flood :: company_data where
  "company_without_flood = sample_company(''flood_risk_score'' := None)"


text \<open>A logistics company with every slider at its maximum of 10 and a high carbon
  intensity.\<close>

definition company_all_ten :: company_data where
  "company_all_ten = map_of
    [(''company_name'', Str ''Deep Seam''),
     (''industry'', Str ''Logistics''),
     (''location'', Str ''Nairobi''),
     (''revenue'', Num 1000),
     (''carbon_footprint'', Num 200000),
     (''physical_risk_score'', Num 10),
     (''transition_risk_score'', Num 10),
     (''flood_risk_score'', Num 10),
     (''heat_stress_score'', Num 10),
     (''sea_level_rise_score'', Num 10),
     (''wildfire_risk_score'', Num 10),
     (''carbon_price_exposure_score'', Num 10),
     (''regulatory_compliance_score'', Num 10),
     (''technology_disruption_score'', Num 10)]"

section \<open>The recommendation rules\<close>

text \<open>
  Claim C1. The exclusion-aware classifier evaluates its rules top to bottom, the first
  match winning, with strict comparisons: a non-compliant company gets "Do not proceed";
  a compliant one gets "High risk" when the score is above 8, "Moderate risk" when it is
  above 5 and "Low risk" otherwise. A score of exactly 8 is "Moderate" and a score of
  exactly 5 is "Low".
\<close>

theorem recommendation_rules:
  "(\<not> compliant \<longrightarrow> generate_recommendation compliant score =
       ''Do not proceed - ESG exclusion list violations detected'') \<and>
   (compliant \<and> score > 8 \<longrightarrow> generate_recommendation compliant score =
       ''High risk - requires detailed due diligence'') \<and>
   (compliant \<and> \<not> score > 8 \<and> score > 5 \<longrightarrow> generate_recommendation compliant score =
       ''Moderate risk - proceed with caution'') \<and>
   (compliant \<and> \<not> score > 8 \<and> \<not> score > 5 \<longrightarrow> generate_recommendation compliant score =
       ''Low risk - suitable for investment consideration'') \<and>
   generate_recommendation True 8.0 = ''Moderate risk - proceed with caution'' \<and>
   generate_recommendation True 8.0001 = ''High risk - requires detailed due diligence'' \<and>
   generate_recommendation True 5.0 = ''Low risk - suitable for investment consideration''"
  by (simp add: generate_recommendation_def)

theorem recommendation_rules_witness:
  "generate_recommendation False 9 = ''Do not proceed - ESG exclusion list violations detected'' \<and>
   generate_recommendation True 9 = ''High risk - requires detailed due diligence'' \<and>
   generate_recommendation True 6 = ''Moderate risk - proceed with caution'' \<and>
   generate_recommendation True 2 = ''Low risk - suitable for investment consideration''"
  using recommendation_rules [of False 9] recommendation_rules [of True 9]
    recommendation_rules [of True 6] recommendation_rules [of True 2]
  by simp

section \<open>The loan decision rules\<close>

text \<open>
  Claim C2. The loan decision is (Approved, "Low risk") when the risk score is at least
  700, whatever the amount; (Approved, "Medium risk (limited amount)") when the score is
  in [500, 700) and the amount is at most 50000; and (Rejected, "High risk") in every
  other case. A score of 699 is approved for 50000 and rejected for 50001.
\<close>

theorem decide_rules:
  "(risk_score \<ge> 700 \<longrightarrow> decide risk_score loan_amount = (''Approved'', ''Low risk'')) \<and>
   (500 \<le> risk_score \<and> risk_score < 700 \<and> loan_amount \<le> 50000 \<longrightarrow>
      decide risk_score loan_amount = (''Approved'', ''Medium risk (limited amount)'')) \<and>
   (\<not> risk_score \<ge> 700 \<and> \<not> (500 \<le> risk_score \<and> risk_score < 700 \<and> loan_amount \<le> 50000) \<longrightarrow>
      decide risk_score loan_amount = (''Rejected'', ''High risk'')) \<and>
   fst (decide 699 50000) = ''Approved'' \<and>
   fst (decide 699 50001) = ''Rejected''"
  by (auto simp add: decide_def)

theorem decide_rules_witness:
  "decide 750 1000000 = (''Approved'', ''Low risk'') \<and>
   decide 699 50000 = (''Approved'', ''Medium risk (limited amount)'') \<and>
   decide 550 60000 = (''Rejected'', ''High risk'') \<and>
   decide 499 1000 = (''Rejected'', ''High risk'')"
  using decide_rules [of 750 1000000] decide_rules [of 699 50000]
    decide_rules [of 550 60000] decide_rules [of 499 1000]
  by simp

section \<open>Exclusion screening: order, duplicates and case\<close>

lemma screen_loop_filter:
  "screen_loop tax s acc =
     acc @ map fst (filter (\<lambda>(c, ks). list_ex (\<lambda>k. sublist k s) ks) tax)"
  by (induction tax s acc rule: screen_loop.induct) simp_all

lemma labels_distinct: "distinct (map fst esg_exclusion_list)"
  by (simp add: esg_exclusion_list_def)

lemma snd_screen:
  "snd (screen s) =
     map fst (filter (\<lambda>(c, ks). \<exists>k\<in>set ks. sublist k (lower s)) esg_exclusion_list)"
  by (simp add: screen_def Let_def screen_loop_filter list_ex_iff)

lemma fst_screen: "fst (screen s) = (snd (screen s) = [])"
  by (simp add: screen_def Let_def)

lemma lower_char_idem: "lower_char (lower_char c) = lower_char c"
  by (simp add: lower_char_def Let_def)

lemma lower_idem: "lower (lower s) = lower s"
  by (simp add: lower_def lower_char_idem)

lemma violated_iff:
  assumes "(c, ks) \<in> set esg_exclusion_list"
  shows "c \<in> set (snd (screen s)) \<longleftrightarrow> (\<exists>k\<in>set ks. sublist k (lower s))"
proof
  assume "c \<in> set (snd (screen s))"
  then have "\<exists>ks'. (c, ks') \<in> set esg_exclusion_list \<and> (\<exists>k\<in>set ks'. sublist k (lower s))"
    unfolding snd_screen by auto
  then obtain ks' where m: "(c, ks') \<in> set esg_exclusion_list"
    and h: "\<exists>k\<in>set ks'. sublist k (lower s)"
    by blast
  from labels_distinct m assms have "ks' = ks"
    by (rule eq_key_imp_eq_value)
  with h show "\<exists>k\<in>set ks. sublist k (lower s)" by simp
next
  assume "\<exists>k\<in>set ks. sublist k (lower s)"
  with assms show "c \<in> set (snd (screen s))"
    unfolding snd_screen by force
qed

text \<open>
  Claim C5. For every category text, the screen is compliant exactly when the list of
  violations is empty; the violations are the labels of the matched taxonomy categories,
  each at most once, in the order in which the taxonomy defines them (neither
  alphabetical nor by position of the match in the text); and the empty text gives
  (true, []).
\<close>

theorem screen_violations_in_taxonomy_order:
  "(fst (screen s) \<longleftrightarrow> snd (screen s) = []) \<and>
   snd (screen s) =
     map fst (filter (\<lambda>(c, ks). \<exists>k\<in>set ks. sublist k (lower s)) esg_exclusion_list) \<and>
   distinct (snd (screen s)) \<and>
   subseq (snd (screen s))
     [''fossil_fuels'', ''controversial_weapons'', ''ethical_concerns'',
      ''environmental_violations''] \<and>
   screen '''' = (True, []) \<and>
   screen ''Tobacco and COAL_mining'' = (False, [''fossil_fuels'', ''ethical_concerns''])"
proof -
  have d: "distinct (snd (screen s))"
    unfolding snd_screen by (rule distinct_map_filter) (rule labels_distinct)
  have "subseq (snd (screen s)) (map fst esg_exclusion_list)"
    unfolding snd_screen by (simp add: subseq_map)
  then have o: "subseq (snd (screen s))
     [''fossil_fuels'', ''controversial_weapons'', ''ethical_concerns'',
      ''environmental_violations'']"
    by (simp add: esg_exclusion_list_def)
  have e: "screen '''' = (True, [])"
    by code_simp
  have t: "screen ''Tobacco and COAL_mining'' = (False, [''fossil_fuels'', ''ethical_concerns''])"
    by code_simp
  from d o e t show ?thesis
    using fst_screen [of s] snd_screen [of s] by blast
qed

text \<open>
  Claim C6. Screening is case-insensitive literal substring matching: screening a text
  and screening its lower-cased form give the same result, and a taxonomy category is
  violated exactly when one of its keywords is a substring of the lower-cased text. Both
  "OIL_GAS_EXTRACTION" and "oil_gas_extraction" trigger the fossil_fuels violation.
\<close>

theorem screen_case_insensitive:
  "screen (lower s) = screen s \<and>
   (\<forall>c ks. (c, ks) \<in> set esg_exclusion_list \<longrightarrow>
      (c \<in> set (snd (screen s)) \<longleftrightarrow> (\<exists>k\<in>set ks. sublist k (lower s)))) \<and>
   ''fossil_fuels'' \<in> set (snd (screen ''OIL_GAS_EXTRACTION'')) \<and>
   ''fossil_fuels'' \<in> set (snd (screen ''oil_gas_extraction''))"
proof -
  have a: "screen (lower s) = screen s"
    by (simp add: screen_def lower_idem)
  have u: "''fossil_fuels'' \<in> set (snd (screen ''OIL_GAS_EXTRACTION''))"
    by code_simp
  have l: "''fossil_fuels'' \<in> set (snd (screen ''oil_gas_extraction''))"
    by code_simp
  from a u l show ?thesis
    using violated_iff by blast
qed

theorem screen_case_insensitive_witness:
  "screen (lower ''Oil_Gas_Extraction Ltd'') = screen ''Oil_Gas_Extraction Ltd'' \<and>
   (''fossil_fuels'', [''coal_mining'', ''oil_gas_extraction'', ''fossil_power_generation''])
      \<in> set esg_exclusion_list \<and>
   ''fossil_fuels'' \<in> set (snd (screen ''Oil_Gas_Extraction Ltd'')) \<and>
   sublist ''oil_gas_extraction'' (lower ''Oil_Gas_Extraction Ltd'')"
proof -
  have m: "(''fossil_fuels'', [''coal_mining'', ''oil_gas_extraction'', ''fossil_power_generation''])
      \<in> set esg_exclusion_list"
    by (simp add: esg_exclusion_list_def)
  have k: "sublist ''oil_gas_extraction'' (lower ''Oil_Gas_Extraction Ltd'')"
    by code_simp
  from m k show ?thesis
    using screen_case_insensitive [of "''Oil_Gas_Extraction Ltd''"] by auto
qed

section \<open>Weighted scoring: the blend, failures and the reachable range\<close>

lemma dimension_physical:
  "dimension ''physical_risk'' =
     Inr [(''flood_risk'', 0.25), (''heat_stress'', 0.20),
          (''sea_level_rise'', 0.15), (''wildfire_risk'', 0.15)]"
  by (simp add: dimension_def climate_risk_factors_def)

lemma dimension_transition:
  "dimension ''transition_risk'' =
     Inr [(''carbon_price_exposure'', 0.25), (''regulatory_compliance'', 0.20),
          (''technology_disruption'', 0.15)]"
  by (simp add: dimension_def climate_risk_factors_def)

lemma score_body_explicit:
  assumes "d ''flood_risk_score'' = Some (Num fr)"
    and "d ''heat_stress_score'' = Some (Num hs)"
    and "d ''sea_level_rise_score'' = Some (Num sl)"
    and "d ''wildfire_risk_score'' = Some (Num wi)"
    and "d ''carbon_price_exposure_score'' = Some (Num cp)"
    and "d ''regulatory_compliance_score'' = Some (Num rc)"
    and "d ''technology_disruption_score'' = Some (Num td)"
  shows "score_body d =
    Inr (0.6 * (fr * 0.25 + hs * 0.20 + sl * 0.15 + wi * 0.15) +
         0.4 * (cp * 0.25 + rc * 0.20 + td * 0.15))"
  using assms
  by (simp add: score_body_def dimension_physical dimension_transition iloc0_def)

lemma report_fields:
  assumes "generate_report d = Some r"
  shows "climate_risk_score r = round2 (calculate_climate_risk_score d) \<and>
         recommendation r = generate_recommendation (esg_compliant r) (calculate_climate_risk_score d)"
  using assms
  by (auto simp add: generate_report_def load_company_data_def Let_def
      split: sum.splits if_splits prod.splits)




lemma weighted_sum_fails:
  assumes "(f, w) \<in> set ws" and "\<forall>x. d (f @ ''_score'') \<noteq> Some (Num x)"
  shows "\<exists>e. weighted_sum d ws acc = Inl e"
  using assms
proof (induction ws arbitrary: acc)
  case Nil
  then show ?case by simp
next
  case (Cons a ws)
  obtain g v where a: "a = (g, v)" by (cases a)
  show ?case
  proof (cases "d (g @ ''_score'')")
    case None
    then show ?thesis by (simp add: a iloc0_def)
  next
    case (Some c)
    show ?thesis
    proof (cases c)
      case (Str s)
      with Some show ?thesis by (simp add: a iloc0_def)
    next
      case (Num x)
      with Some Cons.prems a have "(f, w) \<in> set ws" by auto
      from Cons.IH [OF this Cons.prems(2)] Some Num show ?thesis
        by (simp add: a iloc0_def)
    qed
  qed
qed

lemma score_body_fails:
  assumes "(key, ws) \<in> set climate_risk_factors" and "(f, w) \<in> set ws"
    and "\<forall>x. d (f @ ''_score'') \<noteq> Some (Num x)"
  shows "\<exists>e. score_body d = Inl e"
proof -
  from assms(1) have "dimension ''physical_risk'' = Inr ws \<or> dimension ''transition_risk'' = Inr ws"
    by (auto simp add: climate_risk_factors_def dimension_def)
  then show ?thesis
  proof
    assume p: "dimension ''physical_risk'' = Inr ws"
    from assms(2,3) have "\<exists>e. weighted_sum d ws 0 = Inl e" by (rule weighted_sum_fails)
    then obtain e where "weighted_sum d ws 0 = Inl e" by blast
    with p show ?thesis by (simp add: score_body_def)
  next
    assume t: "dimension ''transition_risk'' = Inr ws"
    from assms(2,3) have "\<exists>e. weighted_sum d ws 0 = Inl e" by (rule weighted_sum_fails)
    then obtain e where "weighted_sum d ws 0 = Inl e" by blast
    with t show ?thesis
      by (simp add: score_body_def dimension_physical split: sum.splits)
  qed
qed

text \<open>
  A submission without \<open>flood_risk_score\<close>: the body of the scorer fails with
  \<open>KeyError\<close>, the scorer returns 0, and the report shows a score of 0 with the
  "Low risk" recommendation.
\<close>

theorem missing_factor_swallowed:
  "score_body company_without_flood = Inl KeyError \<and>
   calculate_climate_risk_score company_without_flood = 0 \<and>
   (\<exists>r. generate_report company_without_flood = Some r \<and> climate_risk_score r = 0 \<and>
        recommendation r = ''Low risk - suitable for investment consideration'')"
proof -
  have a: "score_body company_without_flood = Inl KeyError"
    by code_simp
  have b: "calculate_climate_risk_score company_without_flood = 0"
    by (simp add: calculate_climate_risk_score_def a)
  have c: "generate_report company_without_flood = Some \<lparr>company_name = Str ''GreenTech Solutions'',
    esg_compliant = True, esg_violations = [], climate_risk_score = 0, esg_risks = [],
    climate_opportunities = [''Renewable energy market growth'', ''Low-carbon competitive advantage''],
    recommendation = ''Low risk - suitable for investment consideration''\<rparr>"
    by code_simp
  from a b c show ?thesis by simp
qed

text \<open>
  Claim C4, as the code has it. For every input on which scoring fails because a
  sub-factor named in the weight table is absent from the input, or is not a number, the
  scorer catches the failure and returns the default score 0.0; no failure reaches its
  caller.
\<close>

theorem scoring_failure_returns_zero:
  assumes "(key, ws) \<in> set climate_risk_factors" and "(f, w) \<in> set ws"
    and "\<forall>x. d (f @ ''_score'') \<noteq> Some (Num x)"
  shows "(\<exists>e. score_body d = Inl e) \<and> calculate_climate_risk_score d = 0"
proof -
  from assms have "\<exists>e. score_body d = Inl e" by (rule score_body_fails)
  then show ?thesis by (auto simp add: calculate_climate_risk_score_def)
qed

theorem scoring_failure_returns_zero_witness:
  "(\<exists>e. score_body company_without_flood = Inl e) \<and>
   calculate_climate_risk_score company_without_flood = 0"
proof -
  have k: "(''physical_risk'',
        [(''flood_risk'', 0.25), (''heat_stress'', 0.20),
         (''sea_level_rise'', 0.15), (''wildfire_risk'', 0.15)]) \<in> set climate_risk_factors"
    by (simp add: climate_risk_factors_def)
  have m: "(''flood_risk'', 0.25) \<in> set [(''flood_risk'', 0.25::real), (''heat_stress'', 0.20),
         (''sea_level_rise'', 0.15), (''wildfire_risk'', 0.15)]"
    by simp
  have n: "\<forall>x. company_without_flood (''flood_risk'' @ ''_score'') \<noteq> Some (Num x)"
    by (simp add: company_without_flood_def)
  from k m n show ?thesis by (rule scoring_failure_returns_zero)
qed

lemma factors_in_range:
  assumes "\<forall>(key, ws) \<in> set climate_risk_factors. \<forall>(f, w) \<in> set ws.
             \<exists>x. d (f @ ''_score'') = Some (Num x) \<and> 0 \<le> x \<and> x \<le> 10"
    and "(key, ws) \<in> set climate_risk_factors" and "(f, w) \<in> set ws"
  shows "\<exists>x. d (f @ ''_score'') = Some (Num x) \<and> x \<le> 10"
  using assms by fastforce

lemma score_at_most:
  assumes "\<forall>(key, ws) \<in> set climate_risk_factors. \<forall>(f, w) \<in> set ws.
             \<exists>x. d (f @ ''_score'') = Some (Num x) \<and> 0 \<le> x \<and> x \<le> 10"
  shows "calculate_climate_risk_score d \<le> 6.9"
proof -
  have p: "(''physical_risk'',
        [(''flood_risk'', 0.25), (''heat_stress'', 0.20),
         (''sea_level_rise'', 0.15), (''wildfire_risk'', 0.15)]) \<in> set climate_risk_factors"
    and t: "(''transition_risk'',
        [(''carbon_price_exposure'', 0.25), (''regulatory_compliance'', 0.20),
         (''technology_disruption'', 0.15)]) \<in> set climate_risk_factors"
    by (simp_all add: climate_risk_factors_def)
  from factors_in_range [OF assms p, of "''flood_risk''" "0.25"]
  obtain fr where fr: "d ''flood_risk_score'' = Some (Num fr)" "fr \<le> 10" by auto
  from factors_in_range [OF assms p, of "''heat_stress''" "0.20"]
  obtain hs where hs: "d ''heat_stress_score'' = Some (Num hs)" "hs \<le> 10" by auto
  from factors_in_range [OF assms p, of "''sea_level_rise''" "0.15"]
  obtain sl where sl: "d ''sea_level_rise_score'' = Some (Num sl)" "sl \<le> 10" by auto
  from factors_in_range [OF assms p, of "''wildfire_risk''" "0.15"]
  obtain wi where wi: "d ''wildfire_risk_score'' = Some (Num wi)" "wi \<le> 10" by auto
  from factors_in_range [OF assms t, of "''carbon_price_exposure''" "0.25"]
  obtain cp where cp: "d ''carbon_price_exposure_score'' = Some (Num cp)" "cp \<le> 10" by auto
  from factors_in_range [OF assms t, of "''regulatory_compliance''" "0.20"]
  obtain rc where rc: "d ''regulatory_compliance_score'' = Some (Num rc)" "rc \<le> 10" by auto
  from factors_in_range [OF assms t, of "''technology_disruption''" "0.15"]
  obtain td where td: "d ''technology_disruption_score'' = Some (Num td)" "td \<le> 10" by auto
  have s: "calculate_climate_risk_score d =
           0.6 * (fr * 0.25 + hs * 0.20 + sl * 0.15 + wi * 0.15) +
           0.4 * (cp * 0.25 + rc * 0.20 + td * 0.15)"
    unfolding calculate_climate_risk_score_def
      score_body_explicit [OF fr(1) hs(1) sl(1) wi(1) cp(1) rc(1) td(1)] by simp
  from fr(2) hs(2) sl(2) wi(2) cp(2) rc(2) td(2) show ?thesis
    unfolding s by (simp add: field_simps)
qed

lemma weight_sums:
  "map (\<lambda>(key, ws). (key, sum_list (map snd ws))) climate_risk_factors =
           [(''physical_risk'', 0.75), (''transition_risk'', 0.60)]"
  by (simp add: climate_risk_factors_def)

lemma not_high: "s \<le> 6.9 \<Longrightarrow> generate_recommendation c s \<noteq>
           ''High risk - requires detailed due diligence''"
  by (simp add: generate_recommendation_def)

text \<open>
  Claim C10. The physical-risk weights sum to 0.75 and the transition-risk weights to
  0.60; with the blend 0.6/0.4, every input whose sub-factor scores all lie in [0, 10]
  has a composite score of at most 6.9, so the recommendation "High risk - requires
  detailed due diligence" is never produced for it, whatever the compliance flag.
\<close>

theorem high_risk_unreachable:
  assumes "\<forall>(key, ws) \<in> set climate_risk_factors. \<forall>(f, w) \<in> set ws.
             \<exists>x. d (f @ ''_score'') = Some (Num x) \<and> 0 \<le> x \<and> x \<le> 10"
  shows "map (\<lambda>(key, ws). (key, sum_list (map snd ws))) climate_risk_factors =
           [(''physical_risk'', 0.75), (''transition_risk'', 0.60)] \<and>
         calculate_climate_risk_score d \<le> 6.9 \<and>
         generate_recommendation compliant (calculate_climate_risk_score d) \<noteq>
           ''High risk - requires detailed due diligence'' \<and>
         (\<forall>r. generate_report d = Some r \<longrightarrow>
            recommendation r \<noteq> ''High risk - requires detailed due diligence'')"
proof -
  from assms have le: "calculate_climate_risk_score d \<le> 6.9"
    by (rule score_at_most)
  have rep: "recommendation r \<noteq> ''High risk - requires detailed due diligence''"
    if "generate_report d = Some r" for r
  proof -
    from report_fields [OF that] have "recommendation r =
      generate_recommendation (esg_compliant r) (calculate_climate_risk_score d)" by simp
    with not_high [OF le] show ?thesis by simp
  qed
  from weight_sums le not_high [OF le] rep show ?thesis by blast
qed

theorem high_risk_unreachable_witness:
  "calculate_climate_risk_score company_all_ten \<le> 6.9 \<and>
   generate_recommendation True (calculate_climate_risk_score company_all_ten) \<noteq>
     ''High risk - requires detailed due diligence'' \<and>
   (\<exists>r. generate_report company_all_ten = Some r \<and>
        recommendation r = ''Moderate risk - proceed with caution'')"
proof -
  have h: "\<forall>(key, ws) \<in> set climate_risk_factors. \<forall>(f, w) \<in> set ws.
             \<exists>x. company_all_ten (f @ ''_score'') = Some (Num x) \<and> 0 \<le> x \<and> x \<le> 10"
    by (simp add: climate_risk_factors_def company_all_ten_def)
  have r: "generate_report company_all_ten = Some \<lparr>company_name = Str ''Deep Seam'',
    esg_compliant = True, esg_violations = [], climate_risk_score = 6.9,
    esg_risks = [''High carbon intensity'', ''High physical climate risk'', ''High transition risk''],
    climate_opportunities = [],
    recommendation = ''Moderate risk - proceed with caution''\<rparr>"
    by code_simp
  from high_risk_unreachable [OF h, of True] r show ?thesis by simp
qed

section \<open>Qualitative rules: division by zero and rule order\<close>








section \<open>The weight table\<close>

text \<open>
  Claim C9. The weights of the static table are non-negative, but within a dimension they
  do not sum to 1.0: the physical-risk weights sum to 0.75 and the transition-risk
  weights to 0.60. With every sub-factor at its maximum of 10 the composite score is
  6.9, shown out of 10, and the recommendation is "Moderate risk".
\<close>

theorem weights_do_not_sum_to_one:
  "list_all (\<lambda>(key, ws). list_all (\<lambda>(f, w). 0 \<le> w) ws) climate_risk_factors \<and>
   map (\<lambda>(key, ws). (key, sum_list (map snd ws))) climate_risk_factors =
     [(''physical_risk'', 0.75), (''transition_risk'', 0.60)] \<and>
   calculate_climate_risk_score company_all_ten = 6.9 \<and>
   generate_recommendation True (calculate_climate_risk_score company_all_ten) =
     ''Moderate risk - proceed with caution''"
proof -
  have a: "list_all (\<lambda>(key, ws). list_all (\<lambda>(f, w). 0 \<le> w) ws) climate_risk_factors"
    by (simp add: climate_risk_factors_def)
  have b: "map (\<lambda>(key, ws). (key, sum_list (map snd ws))) climate_risk_factors =
     [(''physical_risk'', 0.75), (''transition_risk'', 0.60)]"
    by (simp add: climate_risk_factors_def)
  have c: "calculate_climate_risk_score company_all_ten = 6.9"
    by code_simp
  have d: "generate_recommendation True (calculate_climate_risk_score company_all_ten) =
     ''Moderate risk - proceed with caution''"
    unfolding c by (simp add: generate_recommendation_def)
  from a b c d show ?thesis by blast
qed

end
